theory Spec2Isabelle
  imports Complex_Main "HOL-Library.Char_ord" "HOL-Library.List_Lexorder" "HOL-Library.Sublist"
begin

section \<open>Strings as the service sees them\<close>

text \<open>
  JavaScript strings are modelled as lists of 8-bit code units (Latin-1). \<open>trim\<close> removes the
  white space of that range from both ends, \<open>toLowerCase\<close> maps the upper-case letters of that
  range, and the default \<open>sort\<close> compares code units lexicographically.
\<close>

definition isSpace :: "char \<Rightarrow> bool" where
  "isSpace c = ((of_char c :: nat) \<in> {9, 10, 11, 12, 13, 32, 160})"

definition trim :: "string \<Rightarrow> string" where
  "trim s = rev (dropWhile isSpace (rev (dropWhile isSpace s)))"

definition lowerChar :: "char \<Rightarrow> char" where
  "lowerChar c =
     (let n = (of_char c :: nat)
      in if (65 \<le> n \<and> n \<le> 90) \<or> (192 \<le> n \<and> n \<le> 214) \<or> (216 \<le> n \<and> n \<le> 222)
         then char_of (n + 32) else c)"

definition toLowerCase :: "string \<Rightarrow> string" where
  "toLowerCase s = map lowerChar s"

fun uniqueInOrder :: "'a list \<Rightarrow> 'a list" where
  "uniqueInOrder [] = []"
| "uniqueInOrder (x # xs) = x # filter (\<lambda>y. y \<noteq> x) (uniqueInOrder xs)"

fun joinWith :: "string \<Rightarrow> string list \<Rightarrow> string" where
  "joinWith sep [] = []"
| "joinWith sep [x] = x"
| "joinWith sep (x # y # ys) = x @ sep @ joinWith sep (y # ys)"

definition buildWarningSignature :: "string list \<Rightarrow> string" where
  "buildWarningSignature warnings =
     joinWith ''|'' (sort (uniqueInOrder
       (filter (\<lambda>warning. length warning > 0) (map (\<lambda>warning. trim (toLowerCase warning)) warnings))))"

definition dedupeWarnings :: "string list \<Rightarrow> string list" where
  "dedupeWarnings warnings =
     uniqueInOrder (filter (\<lambda>warning. length warning > 0) (map trim warnings))"


fun includesStr :: "string \<Rightarrow> string \<Rightarrow> bool" where
  "includesStr [] sub = (sub = [])"
| "includesStr (c # cs) sub = (prefix sub (c # cs) \<or> includesStr cs sub)"

text \<open>\<open>replace(/\s+/g, " ")\<close>: every maximal run of white space becomes one blank.\<close>

fun collapseRun :: "bool \<Rightarrow> string \<Rightarrow> string" where
  "collapseRun inRun [] = []"
| "collapseRun inRun (c # cs) =
     (if isSpace c then (if inRun then collapseRun True cs else CHR '' '' # collapseRun True cs)
      else c # collapseRun False cs)"

definition collapseSpaces :: "string \<Rightarrow> string" where
  "collapseSpaces s = collapseRun False s"

section \<open>Rate card and cost estimates\<close>

text \<open>
  JavaScript numbers are modelled by \<open>int\<close> where the code only holds integers (token counts,
  attempt counters, pixel coordinates) and by \<open>real\<close> otherwise (scores, USD amounts), so
  the rounding of IEEE doubles is not part of the model.
\<close>

record ModelProfile =
  inputPerMTokens :: real
  outputPerMTokens :: real
  profileMaxAttempts :: int
  compactPrompt :: bool
  profileCorrectionIssueLimit :: "int option"

definition modelRates :: "string \<Rightarrow> ModelProfile option" where
  "modelRates model =
     (if model = ''gpt-4.1'' then
        Some \<lparr>inputPerMTokens = 2, outputPerMTokens = 8, profileMaxAttempts = 4,
              compactPrompt = False, profileCorrectionIssueLimit = Some 2\<rparr>
      else if model = ''gpt-4.1-mini'' then
        Some \<lparr>inputPerMTokens = 4 / 10, outputPerMTokens = 16 / 10, profileMaxAttempts = 3,
              compactPrompt = True, profileCorrectionIssueLimit = Some 2\<rparr>
      else if model = ''gpt-4.1-nano'' then
        Some \<lparr>inputPerMTokens = 1 / 10, outputPerMTokens = 4 / 10, profileMaxAttempts = 4,
              compactPrompt = True, profileCorrectionIssueLimit = Some 3\<rparr>
      else if model = ''gpt-4o'' then
        Some \<lparr>inputPerMTokens = 25 / 10, outputPerMTokens = 10, profileMaxAttempts = 3,
              compactPrompt = False, profileCorrectionIssueLimit = Some 2\<rparr>
      else if model = ''gpt-4o-mini'' then
        Some \<lparr>inputPerMTokens = 15 / 100, outputPerMTokens = 6 / 10, profileMaxAttempts = 2,
              compactPrompt = True, profileCorrectionIssueLimit = Some 2\<rparr>
      else if model = ''gpt-image-1'' then
        Some \<lparr>inputPerMTokens = 4 / 10, outputPerMTokens = 0, profileMaxAttempts = 4,
              compactPrompt = False, profileCorrectionIssueLimit = Some 4\<rparr>
      else None)"

definition getModelProfile :: "string \<Rightarrow> ModelProfile" where
  "getModelProfile model =
     (case modelRates model of
        Some profile \<Rightarrow> profile
      | None \<Rightarrow> \<lparr>inputPerMTokens = 4 / 10, outputPerMTokens = 0, profileMaxAttempts = 3,
                  compactPrompt = False, profileCorrectionIssueLimit = Some 2\<rparr>)"

text \<open>
  \<open>estimateCostUsd\<close> returns \<open>null\<close> only when \<open>getModelProfile\<close> yields no profile, which
  never happens; the model returns the number, and the callers' \<open>?? fallback\<close> is dead code.
\<close>

definition estimateCostUsd :: "string \<Rightarrow> int \<Rightarrow> int \<Rightarrow> real" where
  "estimateCostUsd model inputTokens outputTokens =
     (let rates = getModelProfile model;
          inputCost = (real_of_int inputTokens / 1000000) * inputPerMTokens rates;
          outputCost = (real_of_int outputTokens / 1000000) * outputPerMTokens rates
      in inputCost + outputCost)"

definition estimateTokens :: "string \<Rightarrow> int" where
  "estimateTokens text =
     (let normalized = collapseSpaces (trim text)
      in if normalized = [] then 0
         else max 1 (\<lceil>real (length normalized) / 4\<rceil>))"

definition mathRound :: "real \<Rightarrow> int" where
  "mathRound x = \<lfloor>x + 1 / 2\<rfloor>"

definition estimateOutputTokens :: "int \<Rightarrow> int \<Rightarrow> int \<Rightarrow> int" where
  "estimateOutputTokens spriteSize columns rows =
     (let sheetPixels = spriteSize * spriteSize * columns * rows
      in min (max (mathRound (real_of_int sheetPixels / 20)) 512) 12000)"

definition buildAttemptCostEstimate :: "string \<Rightarrow> string \<Rightarrow> int \<Rightarrow> real" where
  "buildAttemptCostEstimate model prompt outputTokensEstimate =
     (let promptTokensEstimate = estimateTokens prompt
      in estimateCostUsd model promptTokensEstimate outputTokensEstimate)"

section \<open>Attempt candidates and their rank\<close>

type_synonym buffer = "nat list"

record TokenUsage =
  inputTokens :: int
  outputTokens :: int
  totalTokens :: int

record SettingsVerificationResult =
  passed :: bool
  summary :: string
  failures :: "string list"

text \<open>
  Of the quality diagnostics the controller reads the score and the number of empty frames;
  the thresholds, the other metrics and the frame summaries are carried along unread and are
  left out of this record.
\<close>

record QualityDiagnostics =
  diagnosticsScore :: real
  diagnosticsEmptyFrameCount :: int

record AttemptCandidate =
  attempt :: int
  candidateBuffer :: buffer
  candidateWarnings :: "string list"
  candidateDiagnostics :: QualityDiagnostics
  candidateVerification :: SettingsVerificationResult
  candidateTokenUsage :: TokenUsage
  score :: real
  warningSignature :: string
  qualityScore :: real

definition candidateRank :: "AttemptCandidate \<Rightarrow> real" where
  "candidateRank candidate =
     (let settingsBonus = (if passed (candidateVerification candidate) then 1000 else 0);
          warningPenalty = real (length (candidateWarnings candidate)) * (1 / 2)
      in settingsBonus + score candidate - warningPenalty)"

text \<open>The update of \<open>bestCandidate\<close> at the end of an attempt.\<close>

definition selectBest :: "AttemptCandidate option \<Rightarrow> AttemptCandidate \<Rightarrow> AttemptCandidate" where
  "selectBest bestCandidate candidate =
     (case bestCandidate of
        None \<Rightarrow> candidate
      | Some best \<Rightarrow> if candidateRank candidate > candidateRank best then candidate else best)"


section \<open>Backend adapter\<close>

text \<open>
  A thrown value is an \<open>ApiError\<close> (status code and message), another \<open>Error\<close> (an optional
  numeric \<open>status\<close> property and its message), or a value that is not an \<open>Error\<close> at all.
\<close>

datatype thrown = ApiError int string | JsError "int option" string | NonError "int option"

definition MODEL_ACCESS_FALLBACK :: string where
  "MODEL_ACCESS_FALLBACK = ''gpt-image-1''"

definition extractOpenAiError :: "thrown \<Rightarrow> string \<times> string \<times> int" where
  "extractOpenAiError error =
     (let message = (case error of ApiError _ m \<Rightarrow> m | JsError _ m \<Rightarrow> m
                     | NonError _ \<Rightarrow> ''OpenAI request failed'');
          normalized = toLowerCase message;
          status = (case error of ApiError _ _ \<Rightarrow> 0
                    | JsError st _ \<Rightarrow> (case st of Some n \<Rightarrow> n | None \<Rightarrow> 0)
                    | NonError st \<Rightarrow> (case st of Some n \<Rightarrow> n | None \<Rightarrow> 0))
      in (message, normalized, status))"

definition isVerificationPropagationMessage :: "string \<Rightarrow> bool" where
  "isVerificationPropagationMessage normalizedMessage =
     (includesStr normalizedMessage ''organization must be verified to use the model'' \<or>
      (includesStr normalizedMessage ''just verified'' \<and> includesStr normalizedMessage ''15 minutes''))"

definition mapOpenAiError :: "thrown \<Rightarrow> thrown" where
  "mapOpenAiError error =
     (case error of
        ApiError c m \<Rightarrow> ApiError c m
      | _ \<Rightarrow>
        (case extractOpenAiError error of (message, normalized, status) \<Rightarrow>
           if includesStr normalized ''billing hard limit'' \<or> includesStr normalized ''insufficient_quota''
           then ApiError 402 ''OpenAI billing limit reached. Add credits and retry.''
           else if status = 403 \<and> isVerificationPropagationMessage normalized
           then ApiError 403
                  (''Model access is pending organization verification propagation. '' @
                   ''Wait up to 15 minutes or choose '' @ MODEL_ACCESS_FALLBACK @ ''.'')
           else if status = 401
           then ApiError 502 ''OpenAI authentication failed. Check OPENAI_API_KEY.''
           else if status = 429
           then ApiError 429 ''OpenAI rate limit reached. Please retry shortly.''
           else ApiError 502 (''OpenAI image generation failed: '' @ message)))"

record OpenAiUsage =
  prompt_tokens :: "int option"
  completion_tokens :: "int option"
  total_tokens :: "int option"

text \<open>
  The first image of a response carries inline bytes, or a URL whose download throws, answers
  with a non-OK status or delivers the bytes, or neither.
\<close>

datatype FetchResult = FetchThrows thrown | FetchNotOk | FetchOk buffer

datatype ImagePayload = B64Json buffer | ImageUrl FetchResult | NoPayload

record ImageResponse =
  usage :: "OpenAiUsage option"
  payload :: ImagePayload

record RawImage =
  rawBuffer :: buffer
  modelUsed :: string
  tokenUsage :: TokenUsage

definition readResponse :: "int \<Rightarrow> string \<Rightarrow> ImageResponse \<Rightarrow> thrown + RawImage" where
  "readResponse fallbackPromptTokens model imageResponse =
     (let promptTokens = (case usage imageResponse of None \<Rightarrow> None | Some u \<Rightarrow> prompt_tokens u);
          completionTokens = (case usage imageResponse of None \<Rightarrow> None | Some u \<Rightarrow> completion_tokens u);
          totalFromUsage = (case usage imageResponse of None \<Rightarrow> None | Some u \<Rightarrow> total_tokens u);
          inputTokens = (case promptTokens of Some n \<Rightarrow> if n > 0 then n else fallbackPromptTokens
                         | None \<Rightarrow> fallbackPromptTokens);
          outputTokens = (case completionTokens of Some n \<Rightarrow> if n > 0 then n else 0 | None \<Rightarrow> 0);
          finalOutputTokens =
            (if outputTokens > 0 then outputTokens
             else max 0 (case totalFromUsage of
                           Some t \<Rightarrow> if t \<ge> inputTokens then t - inputTokens else 0
                         | None \<Rightarrow> 0));
          totalTokens = (case totalFromUsage of Some t \<Rightarrow> t | None \<Rightarrow> inputTokens + finalOutputTokens);
          tokens = \<lparr>inputTokens = inputTokens, outputTokens = finalOutputTokens, totalTokens = totalTokens\<rparr>
      in case payload imageResponse of
           B64Json bytes \<Rightarrow> Inr \<lparr>rawBuffer = bytes, modelUsed = model, tokenUsage = tokens\<rparr>
         | NoPayload \<Rightarrow> Inl (ApiError 502 ''Image generation returned no image payload'')
         | ImageUrl (FetchThrows error) \<Rightarrow> Inl error
         | ImageUrl FetchNotOk \<Rightarrow> Inl (ApiError 502 ''Failed to download generated image'')
         | ImageUrl (FetchOk bytes) \<Rightarrow> Inr \<lparr>rawBuffer = bytes, modelUsed = model, tokenUsage = tokens\<rparr>)"

text \<open>
  \<open>generateRawImage\<close>, given the backend as a function from the model and the prompt to its
  answer. The first component of the result lists the models the backend was called with.
\<close>

definition generateRawImage ::
  "(string \<Rightarrow> string \<Rightarrow> thrown + ImageResponse) \<Rightarrow> string \<Rightarrow> string \<Rightarrow> string list \<times> (thrown + RawImage)"
where
  "generateRawImage requestImage prompt model =
     (let fallbackPromptTokens = estimateTokens prompt
      in case requestImage model prompt of
           Inr imageResponse \<Rightarrow> ([model], readResponse fallbackPromptTokens model imageResponse)
         | Inl error \<Rightarrow>
           (case extractOpenAiError error of (message, normalized, status) \<Rightarrow>
              let verificationPropagationPending =
                    (status = 403 \<and> isVerificationPropagationMessage normalized);
                  transientOrUnsupportedServerError = (status \<ge> 500 \<and> status < 600);
                  shouldFallback =
                    (model \<noteq> MODEL_ACCESS_FALLBACK \<and>
                     (verificationPropagationPending \<or> transientOrUnsupportedServerError))
              in if \<not> shouldFallback then ([model], Inl (mapOpenAiError error))
                 else (case requestImage MODEL_ACCESS_FALLBACK prompt of
                         Inl fallbackError \<Rightarrow>
                           ([model, MODEL_ACCESS_FALLBACK], Inl (mapOpenAiError fallbackError))
                       | Inr imageResponse \<Rightarrow>
                           ([model, MODEL_ACCESS_FALLBACK],
                            readResponse fallbackPromptTokens MODEL_ACCESS_FALLBACK imageResponse))))"


section \<open>Attempt controller: data\<close>

record Env =
  QUALITY_MAX_ATTEMPTS :: int
  QUALITY_MIN_SCORE :: real
  MAX_ESTIMATED_GENERATION_COST_USD :: real
  STRICT_QUALITY_GATE :: bool

datatype GenerationStatus = PENDING | PROCESSING | COMPLETED | FAILED

datatype ProjectionType = TWO_D | ISOMETRIC

record GenerationTokenEstimate = TokenUsage +
  estimatedOutputTokens :: int

text \<open>
  The JSON export keeps the request's geometry and, beside it, the three parts below; only
  these depend on the run.
\<close>

record SpriteSheetJson =
  jsonVerification :: "SettingsVerificationResult option"
  jsonQuality :: "QualityDiagnostics option"
  jsonTokenUsage :: "GenerationTokenEstimate option"

text \<open>
  A row of the generation table. The column \<open>id\<close> is \<open>genId\<close> and the column
  \<open>qualityWarnings\<close> is \<open>storedWarnings\<close> here.
\<close>

record SpriteGeneration =
  genId :: string
  userId :: string
  prompt :: string
  themePrompt :: string
  styleIntensity :: int
  frameCount :: int
  spriteSize :: int
  projectionType :: ProjectionType
  animationType :: string
  columns :: int
  rows :: int
  modelVersion :: string
  seed :: "int option"
  promptTokens :: int
  storedWarnings :: "string list"
  status :: GenerationStatus
  errorReason :: "string option"
  imageKey :: "string option"
  jsonConfig :: "SpriteSheetJson option"

record QualityResult =
  ok :: bool
  reasons :: "string list"
  diagnostics :: QualityDiagnostics

text \<open>
  What the controller calls and does not compute itself, for one generation: the image backend
  (by attempt, model and prompt), the prompt with the attempt's seed spliced in, the pixel
  passes (each may throw), the correction prompt (by next attempt, ceiling, issues, compact
  flag and issue limit), the upload, the cache write and the SHA-256 digest in hexadecimal.
\<close>

record Collaborators =
  requestImage :: "int \<Rightarrow> string \<Rightarrow> string \<Rightarrow> thrown + ImageResponse"
  seedPrompt :: "int \<Rightarrow> string \<Rightarrow> string"
  normalizeAndClarify :: "buffer \<Rightarrow> thrown + buffer"
  stabilizeSheet :: "buffer \<Rightarrow> thrown + buffer"
  validateQuality :: "buffer \<Rightarrow> thrown + QualityResult"
  verifySettings :: "buffer \<Rightarrow> thrown + SettingsVerificationResult"
  repairFrames :: "buffer \<Rightarrow> thrown + (buffer \<times> int)"
  correctionPrompt :: "int \<Rightarrow> int \<Rightarrow> string list \<Rightarrow> bool \<Rightarrow> int \<Rightarrow> string"
  uploadImage :: "string \<Rightarrow> buffer \<Rightarrow> thrown option"
  cacheSet :: "string \<Rightarrow> string \<Rightarrow> thrown option"
  sha256Hex :: "string \<Rightarrow> string"

datatype StopReason = token_budget | quality_stagnation

text \<open>
  The variables of \<open>processGeneration\<close>. \<open>lastFailureScore = None\<close> stands for
  \<open>Number.NEGATIVE_INFINITY\<close>; the running token sums are \<open>sumInputTokens\<close>,
  \<open>sumOutputTokens\<close> and \<open>sumTotalTokens\<close>; \<open>row\<close> is the stored generation row and
  \<open>backendCalls\<close> lists the models the backend has been called with so far.
\<close>

record LoopState =
  activeModel :: string
  maxAttempts :: int
  correctionIssueLimit :: int
  isCorrectionCompact :: bool
  promptForAttempt :: string
  remainingBudgetUsd :: real
  stopReason :: "StopReason option"
  lastFailureSignature :: "string option"
  lastFailureScore :: "real option"
  failureStallCount :: int
  finalBuffer :: "buffer option"
  qualityWarnings :: "string list"
  sumInputTokens :: int
  sumOutputTokens :: int
  sumTotalTokens :: int
  settingsVerification :: "SettingsVerificationResult option"
  qualityDiagnostics :: "QualityDiagnostics option"
  bestCandidate :: "AttemptCandidate option"
  successfulAttempt :: "int option"
  attemptsExecuted :: int
  row :: SpriteGeneration
  backendCalls :: "string list"

record AttemptEvaluation =
  attemptAttemptBuffer :: buffer
  attemptQualityResult :: QualityResult
  attemptSettingsVerification :: SettingsVerificationResult
  frameRepairSlots :: int

datatype LoopStep = Continue LoopState | Break LoopState | Throw thrown LoopState

section \<open>Attempt controller: one attempt\<close>

definition bindE :: "'e + 'a \<Rightarrow> ('a \<Rightarrow> 'e + 'b) \<Rightarrow> 'e + 'b" where
  "bindE m f = (case m of Inl e \<Rightarrow> Inl e | Inr x \<Rightarrow> f x)"

definition configuredMaxAttempts :: "Env \<Rightarrow> int" where
  "configuredMaxAttempts e = max 1 (QUALITY_MAX_ATTEMPTS e)"

definition estimatedOutputTokensPerAttempt :: "SpriteGeneration \<Rightarrow> int" where
  "estimatedOutputTokensPerAttempt generation =
     estimateOutputTokens (spriteSize generation) (columns generation) (rows generation)"

definition initialState :: "Env \<Rightarrow> SpriteGeneration \<Rightarrow> SpriteGeneration \<Rightarrow> LoopState" where
  "initialState e generation stored =
     (let modelProfile = getModelProfile (modelVersion generation)
      in \<lparr>activeModel = modelVersion generation,
          maxAttempts = min (profileMaxAttempts modelProfile) (configuredMaxAttempts e),
          correctionIssueLimit =
            (case profileCorrectionIssueLimit modelProfile of Some n \<Rightarrow> n | None \<Rightarrow> 2),
          isCorrectionCompact = compactPrompt modelProfile,
          promptForAttempt = prompt generation,
          remainingBudgetUsd = MAX_ESTIMATED_GENERATION_COST_USD e,
          stopReason = None,
          lastFailureSignature = None,
          lastFailureScore = None,
          failureStallCount = 0,
          finalBuffer = None,
          qualityWarnings = [],
          sumInputTokens = 0,
          sumOutputTokens = 0,
          sumTotalTokens = 0,
          settingsVerification = None,
          qualityDiagnostics = None,
          bestCandidate = None,
          successfulAttempt = None,
          attemptsExecuted = 0,
          row = stored,
          backendCalls = []\<rparr>)"

text \<open>After the backend has answered: the model switch, the token sums and the budget.\<close>

definition applyBackendResult :: "Env \<Rightarrow> RawImage \<Rightarrow> LoopState \<Rightarrow> LoopState" where
  "applyBackendResult e raw st =
     (let st1 =
            (if modelUsed raw \<noteq> activeModel st then
               (let modelProfile = getModelProfile (modelUsed raw);
                    adjustedMaxAttempts = min (profileMaxAttempts modelProfile) (configuredMaxAttempts e)
                in st\<lparr>activeModel := modelUsed raw,
                      maxAttempts :=
                        (if adjustedMaxAttempts \<noteq> maxAttempts st then adjustedMaxAttempts
                         else maxAttempts st),
                      correctionIssueLimit :=
                        (case profileCorrectionIssueLimit modelProfile of Some n \<Rightarrow> n | None \<Rightarrow> 2),
                      isCorrectionCompact := compactPrompt modelProfile,
                      row := (row st)\<lparr>modelVersion := modelUsed raw\<rparr>\<rparr>)
             else st)
      in st1\<lparr>sumInputTokens := sumInputTokens st1 + inputTokens (tokenUsage raw),
              sumOutputTokens := sumOutputTokens st1 + outputTokens (tokenUsage raw),
              sumTotalTokens := sumTotalTokens st1 + totalTokens (tokenUsage raw),
              remainingBudgetUsd :=
                max 0 (remainingBudgetUsd st1 -
                       estimateCostUsd (modelUsed raw) (inputTokens (tokenUsage raw))
                         (outputTokens (tokenUsage raw)))\<rparr>)"

text \<open>
  The pixel passes of one attempt, from the raw image to the quality result and the settings
  verification the attempt is judged by, with the frame repair kept only when it helps.
\<close>

definition evaluateAttempt :: "Collaborators \<Rightarrow> buffer \<Rightarrow> thrown + AttemptEvaluation" where
  "evaluateAttempt c rawBytes =
     bindE (normalizeAndClarify c rawBytes) (\<lambda>cleaned.
     bindE (stabilizeSheet c cleaned) (\<lambda>stabilized.
     bindE (validateQuality c stabilized) (\<lambda>qualityResult.
     bindE (verifySettings c stabilized) (\<lambda>verification.
       let unrepaired = \<lparr>attemptAttemptBuffer = stabilized, attemptQualityResult = qualityResult,
                          attemptSettingsVerification = verification, frameRepairSlots = 0\<rparr>;
           missingFrameWarning =
             (diagnosticsEmptyFrameCount (diagnostics qualityResult) > 0 \<or>
              list_ex (\<lambda>reason. includesStr reason ''non-empty frames'') (failures verification));
           originalAttemptScore =
             diagnosticsScore (diagnostics qualityResult) + (if passed verification then 0 else - 18);
           originalSettingsPassed = passed verification;
           originalEmptyFrameCount = diagnosticsEmptyFrameCount (diagnostics qualityResult)
       in if \<not> missingFrameWarning then Inr unrepaired
          else
            bindE (repairFrames c stabilized) (\<lambda>(repairedBuffer, repairedSlots).
              if \<not> repairedSlots > 0 then Inr unrepaired
              else
                bindE (stabilizeSheet c repairedBuffer) (\<lambda>repairedStabilized.
                bindE (validateQuality c repairedStabilized) (\<lambda>repairedQualityResult.
                bindE (verifySettings c repairedStabilized) (\<lambda>repairedSettings.
                  let repairedAttemptScore =
                        diagnosticsScore (diagnostics repairedQualityResult) +
                        (if passed repairedSettings then 0 else - 18);
                      repairedImprovedEmptyFrames =
                        (diagnosticsEmptyFrameCount (diagnostics repairedQualityResult) < originalEmptyFrameCount);
                      shouldUseRepairedAttempt =
                        (repairedAttemptScore > originalAttemptScore \<or>
                         (passed repairedSettings \<and> \<not> originalSettingsPassed) \<or>
                         repairedImprovedEmptyFrames)
                  in if shouldUseRepairedAttempt
                     then Inr \<lparr>attemptAttemptBuffer = repairedStabilized,
                               attemptQualityResult = repairedQualityResult,
                               attemptSettingsVerification = repairedSettings,
                               frameRepairSlots = repairedSlots\<rparr>
                     else Inr unrepaired))))))))"


text \<open>The candidate an attempt builds from its evaluation.\<close>

definition attemptWarningsOf :: "AttemptEvaluation \<Rightarrow> string list" where
  "attemptWarningsOf ev =
     dedupeWarnings (reasons (attemptQualityResult ev) @ failures (attemptSettingsVerification ev))"

definition makeCandidate :: "int \<Rightarrow> RawImage \<Rightarrow> AttemptEvaluation \<Rightarrow> AttemptCandidate" where
  "makeCandidate attemptIndex raw ev =
     (let attemptWarnings = attemptWarningsOf ev;
          attemptScore =
            diagnosticsScore (diagnostics (attemptQualityResult ev)) +
            (if passed (attemptSettingsVerification ev) then 0 else - 18)
      in \<lparr>attempt = attemptIndex,
          candidateBuffer = attemptAttemptBuffer ev,
          candidateWarnings = attemptWarnings,
          candidateDiagnostics = diagnostics (attemptQualityResult ev),
          candidateVerification = attemptSettingsVerification ev,
          candidateTokenUsage = tokenUsage raw,
          score = attemptScore,
          warningSignature = buildWarningSignature attemptWarnings,
          qualityScore = diagnosticsScore (diagnostics (attemptQualityResult ev))\<rparr>)"

definition isFailure :: "AttemptEvaluation \<Rightarrow> bool" where
  "isFailure ev = (\<not> ok (attemptQualityResult ev) \<or> \<not> passed (attemptSettingsVerification ev))"

definition isStalled :: "int \<Rightarrow> AttemptEvaluation \<Rightarrow> AttemptCandidate \<Rightarrow> LoopState \<Rightarrow> bool" where
  "isStalled attemptIndex ev candidate st =
     (isFailure ev \<and> attemptIndex > 1 \<and>
      lastFailureSignature st = Some (warningSignature candidate) \<and>
      (case lastFailureScore st of
         None \<Rightarrow> False
       | Some lastScore \<Rightarrow> qualityScore candidate \<le> lastScore + 3 / 4))"

text \<open>The stall bookkeeping after the candidate has been ranked.\<close>

definition trackStall :: "int \<Rightarrow> AttemptEvaluation \<Rightarrow> AttemptCandidate \<Rightarrow> LoopState \<Rightarrow> LoopState" where
  "trackStall attemptIndex ev candidate st =
     (if isFailure ev then
        st\<lparr>failureStallCount :=
              (if isStalled attemptIndex ev candidate st then failureStallCount st + 1 else 0),
            lastFailureSignature := Some (warningSignature candidate),
            lastFailureScore := Some (qualityScore candidate)\<rparr>
      else
        st\<lparr>failureStallCount := 0, lastFailureSignature := None, lastFailureScore := None\<rparr>)"

text \<open>From the ranking of the candidate to the end of the loop body.\<close>

definition recordCandidate ::
  "Collaborators \<Rightarrow> int \<Rightarrow> RawImage \<Rightarrow> AttemptEvaluation \<Rightarrow> LoopState \<Rightarrow> LoopStep"
where
  "recordCandidate c attemptIndex raw ev st =
     (let candidate = makeCandidate attemptIndex raw ev;
          st1 = st\<lparr>bestCandidate := Some (selectBest (bestCandidate st) candidate)\<rparr>;
          stalled = isStalled attemptIndex ev candidate st1;
          st2 = trackStall attemptIndex ev candidate st1
      in if stopReason st2 = None \<and> stalled \<and> failureStallCount st2 \<ge> 2
         then Break (st2\<lparr>stopReason := Some quality_stagnation\<rparr>)
         else if ok (attemptQualityResult ev) \<and> passed (attemptSettingsVerification ev)
         then Break (st2\<lparr>finalBuffer := Some (attemptAttemptBuffer ev),
                          qualityWarnings := attemptWarningsOf ev,
                          settingsVerification := Some (attemptSettingsVerification ev),
                          qualityDiagnostics := Some (diagnostics (attemptQualityResult ev)),
                          successfulAttempt := Some attemptIndex\<rparr>)
         else if attemptIndex < maxAttempts st2
         then Continue (st2\<lparr>promptForAttempt :=
                                correctionPrompt c (attemptIndex + 1) (maxAttempts st2)
                                  (attemptWarningsOf ev) (isCorrectionCompact st2)
                                  (correctionIssueLimit st2)\<rparr>)
         else Continue st2)"

text \<open>The start of the loop body, up to the budget checks.\<close>

definition budgetBlocked :: "SpriteGeneration \<Rightarrow> LoopState \<Rightarrow> bool" where
  "budgetBlocked generation st =
     (remainingBudgetUsd st \<le> 0 \<or>
      buildAttemptCostEstimate (activeModel st) (promptForAttempt st)
        (estimatedOutputTokensPerAttempt generation) > remainingBudgetUsd st)"

definition attemptBody ::
  "Collaborators \<Rightarrow> Env \<Rightarrow> SpriteGeneration \<Rightarrow> int \<Rightarrow> LoopState \<Rightarrow> LoopStep"
where
  "attemptBody c e generation attemptIndex st0 =
     (let st1 = st0\<lparr>attemptsExecuted := attemptIndex,
                     promptForAttempt := seedPrompt c attemptIndex (promptForAttempt st0)\<rparr>
      in if remainingBudgetUsd st1 \<le> 0 then Break (st1\<lparr>stopReason := Some token_budget\<rparr>)
         else
           let attemptCost = buildAttemptCostEstimate (activeModel st1) (promptForAttempt st1)
                               (estimatedOutputTokensPerAttempt generation)
           in if attemptCost > remainingBudgetUsd st1
              then Break (st1\<lparr>stopReason := Some token_budget\<rparr>)
              else
                (case generateRawImage (requestImage c attemptIndex) (promptForAttempt st1)
                        (activeModel st1) of
                   (calls, Inl error) \<Rightarrow>
                     Throw error (st1\<lparr>backendCalls := backendCalls st1 @ calls\<rparr>)
                 | (calls, Inr raw) \<Rightarrow>
                     let st2 = applyBackendResult e raw
                                 (st1\<lparr>backendCalls := backendCalls st1 @ calls\<rparr>)
                     in (case evaluateAttempt c (rawBuffer raw) of
                           Inl error \<Rightarrow> Throw error st2
                         | Inr ev \<Rightarrow> recordCandidate c attemptIndex raw ev st2)))"


section \<open>Attempt controller: the loop\<close>










section \<open>Numbers as text, JSON and the fingerprint\<close>

definition digitChar :: "nat \<Rightarrow> char" where
  "digitChar d = char_of (48 + d)"

function showNat :: "nat \<Rightarrow> string" where
  "showNat n = (if n < 10 then [digitChar n] else showNat (n div 10) @ [digitChar (n mod 10)])"
  by pat_completeness auto
termination
  by (relation "measure (\<lambda>n. n)") auto

declare showNat.simps [simp del]

definition showInt :: "int \<Rightarrow> string" where
  "showInt i = (if i < 0 then CHR ''-'' # showNat (nat (- i)) else showNat (nat i))"

text \<open>\<open>toFixed(1)\<close>, used on scores.\<close>

definition toFixed1 :: "real \<Rightarrow> string" where
  "toFixed1 x =
     (let tenths = mathRound (\<bar>x\<bar> * 10)
      in (if x < 0 then ''-'' else []) @ showInt (tenths div 10) @ ''.'' @ showInt (tenths mod 10))"










section \<open>Attempt controller: finalization\<close>










section \<open>processGeneration\<close>





section \<open>Concrete inputs\<close>

text \<open>
  A failing evaluation (quality score 80, settings verification failed, two warnings) and a
  passing one, a raw image, and a state to start from, used where a statement is evaluated.
\<close>

definition failingEvaluation :: AttemptEvaluation where
  "failingEvaluation =
     \<lparr>attemptAttemptBuffer = [1],
      attemptQualityResult =
        \<lparr>ok = False, reasons = [''Anchor drift too high''],
         diagnostics = \<lparr>diagnosticsScore = 80, diagnosticsEmptyFrameCount = 0\<rparr>\<rparr>,
      attemptSettingsVerification =
        \<lparr>passed = False, summary = ''Image does not meet requested settings.'',
         failures = [''image is not RGBA transparent as requested'']\<rparr>,
      frameRepairSlots = 0\<rparr>"



definition sampleGeneration :: SpriteGeneration where
  "sampleGeneration =
     \<lparr>genId = ''g1'', userId = ''u1'', prompt = ''sprite sheet of a knight'',
      themePrompt = ''a knight'', styleIntensity = 70, frameCount = 4, spriteSize = 64,
      projectionType = TWO_D, animationType = ''walk'', columns = 4, rows = 1,
      modelVersion = ''gpt-image-1'', seed = Some 7, promptTokens = 0, storedWarnings = [],
      status = PENDING, errorReason = None, imageKey = None, jsonConfig = None\<rparr>"

definition sampleEnv :: Env where
  "sampleEnv =
     \<lparr>QUALITY_MAX_ATTEMPTS = 4, QUALITY_MIN_SCORE = 85,
      MAX_ESTIMATED_GENERATION_COST_USD = 100, STRICT_QUALITY_GATE = True\<rparr>"

text \<open>Collaborators whose backend always delivers and whose pixel passes judge every image alike.\<close>

definition steadyCollaborators :: "AttemptEvaluation \<Rightarrow> Collaborators" where
  "steadyCollaborators ev =
     \<lparr>requestImage = (\<lambda>attemptIndex model text. Inr \<lparr>usage = None, payload = B64Json [0]\<rparr>),
      seedPrompt = (\<lambda>attemptIndex text. text),
      normalizeAndClarify = (\<lambda>bytes. Inr bytes),
      stabilizeSheet = (\<lambda>bytes. Inr (attemptAttemptBuffer ev)),
      validateQuality = (\<lambda>bytes. Inr (attemptQualityResult ev)),
      verifySettings = (\<lambda>bytes. Inr (attemptSettingsVerification ev)),
      repairFrames = (\<lambda>bytes. Inr (bytes, 0)),
      correctionPrompt = (\<lambda>nextAttempt ceiling issues compact issueLimit. ''fix the issues''),
      uploadImage = (\<lambda>key bytes. None),
      cacheSet = (\<lambda>key value. None),
      sha256Hex = (\<lambda>text. text)\<rparr>"

definition stepState :: "LoopStep \<Rightarrow> LoopState" where
  "stepState step = (case step of Continue st \<Rightarrow> st | Break st \<Rightarrow> st | Throw error st \<Rightarrow> st)"

section \<open>Ranking of candidates\<close>







section \<open>Reaching the evaluation of an attempt\<close>

text \<open>
  \<open>attemptReach\<close> follows the loop body up to the point where the candidate is ranked: it
  gives the raw image, the evaluation and the state there, or \<open>None\<close> when the budget blocks
  the attempt or something throws before.
\<close>

definition attemptReach ::
  "Collaborators \<Rightarrow> Env \<Rightarrow> SpriteGeneration \<Rightarrow> int \<Rightarrow> LoopState
     \<Rightarrow> (RawImage \<times> AttemptEvaluation \<times> LoopState) option"
where
  "attemptReach c e generation attemptIndex st0 =
     (let st1 = st0\<lparr>attemptsExecuted := attemptIndex,
                     promptForAttempt := seedPrompt c attemptIndex (promptForAttempt st0)\<rparr>
      in if budgetBlocked generation st1 then None
         else
           (case generateRawImage (requestImage c attemptIndex) (promptForAttempt st1)
                   (activeModel st1) of
              (calls, Inl error) \<Rightarrow> None
            | (calls, Inr raw) \<Rightarrow>
                (case evaluateAttempt c (rawBuffer raw) of
                   Inl error \<Rightarrow> None
                 | Inr ev \<Rightarrow>
                     Some (raw, ev,
                       applyBackendResult e raw
                         (st1\<lparr>backendCalls := backendCalls st1 @ calls\<rparr>)))))"

lemma attemptBody_reached:
  "attemptReach c e g a st = Some (raw, ev, s) \<Longrightarrow>
     attemptBody c e g a st = recordCandidate c a raw ev s"
  by (auto simp: attemptReach_def attemptBody_def budgetBlocked_def Let_def
      split: if_splits prod.splits sum.splits)

lemma attemptBody_unreached:
  "attemptReach c e g a st = None \<Longrightarrow>
     (\<exists>s. attemptBody c e g a st = Break s \<and> stopReason s = Some token_budget \<and>
          backendCalls s = backendCalls st) \<or>
     (\<exists>error s. attemptBody c e g a st = Throw error s \<and> stopReason s = stopReason st)"
  by (auto simp: attemptReach_def attemptBody_def budgetBlocked_def Let_def applyBackendResult_def
      split: if_splits prod.splits sum.splits)

lemma applyBackendResult_stall_fields:
  "lastFailureSignature (applyBackendResult e raw st) = lastFailureSignature st"
  "lastFailureScore (applyBackendResult e raw st) = lastFailureScore st"
  "failureStallCount (applyBackendResult e raw st) = failureStallCount st"
  "stopReason (applyBackendResult e raw st) = stopReason st"
  "bestCandidate (applyBackendResult e raw st) = bestCandidate st"
  "attemptsExecuted (applyBackendResult e raw st) = attemptsExecuted st"
  by (simp_all add: applyBackendResult_def Let_def)

lemma attemptReach_stall_fields:
  assumes "attemptReach c e g a st = Some (raw, ev, s)"
  shows "lastFailureSignature s = lastFailureSignature st"
    and "lastFailureScore s = lastFailureScore st"
    and "failureStallCount s = failureStallCount st"
    and "stopReason s = stopReason st"
    and "bestCandidate s = bestCandidate st"
    and "attemptsExecuted s = a"
  using assms
  by (auto simp: attemptReach_def Let_def applyBackendResult_stall_fields
      split: if_splits prod.splits sum.splits)

section \<open>Stagnation\<close>

text \<open>The stall condition, written out on the state and the evaluation.\<close>

definition stalledAgainst :: "int \<Rightarrow> AttemptEvaluation \<Rightarrow> LoopState \<Rightarrow> bool" where
  "stalledAgainst attemptIndex ev st =
     (isFailure ev \<and> attemptIndex > 1 \<and>
      lastFailureSignature st = Some (buildWarningSignature (attemptWarningsOf ev)) \<and>
      (\<exists>lastScore. lastFailureScore st = Some lastScore \<and>
         diagnosticsScore (diagnostics (attemptQualityResult ev)) \<le> lastScore + 3 / 4))"

lemma isStalled_stalledAgainst:
  "isStalled a ev (makeCandidate a raw ev) st = stalledAgainst a ev st"
  by (auto simp: isStalled_def stalledAgainst_def makeCandidate_def Let_def split: option.splits)

lemma isStalled_bestCandidate_update:
  "isStalled a ev cand (st\<lparr>bestCandidate := b\<rparr>) = isStalled a ev cand st"
  by (simp add: isStalled_def)

lemma recordCandidate_failureStallCount:
  "failureStallCount (stepState (recordCandidate c a raw ev st)) =
     (if stalledAgainst a ev st then failureStallCount st + 1 else 0)"
proof -
  have "stalledAgainst a ev st \<Longrightarrow> isFailure ev" by (simp add: stalledAgainst_def)
  then show ?thesis
    by (auto simp: recordCandidate_def Let_def stepState_def trackStall_def
        isStalled_bestCandidate_update isStalled_stalledAgainst)
qed

lemma recordCandidate_lastFailure:
  "lastFailureSignature (stepState (recordCandidate c a raw ev st)) =
     (if isFailure ev then Some (buildWarningSignature (attemptWarningsOf ev)) else None)"
  "lastFailureScore (stepState (recordCandidate c a raw ev st)) =
     (if isFailure ev then Some (diagnosticsScore (diagnostics (attemptQualityResult ev))) else None)"
  by (auto simp: recordCandidate_def Let_def stepState_def trackStall_def makeCandidate_def)

lemma recordCandidate_stagnation:
  assumes "stopReason st = None"
  shows "(\<exists>s. recordCandidate c a raw ev st = Break s \<and> stopReason s = Some quality_stagnation) =
         (stalledAgainst a ev st \<and> failureStallCount st + 1 \<ge> 2)"
proof -
  have f: "stalledAgainst a ev st \<Longrightarrow> isFailure ev" by (simp add: stalledAgainst_def)
  have nf: "isFailure ev \<Longrightarrow> \<not> (ok (attemptQualityResult ev) \<and> passed (attemptSettingsVerification ev))"
    by (auto simp: isFailure_def)
  show ?thesis
    using assms f nf
    by (auto simp: recordCandidate_def Let_def trackStall_def
        isStalled_bestCandidate_update isStalled_stalledAgainst)
qed

lemma recordCandidate_Continue_stopReason:
  "recordCandidate c a raw ev st = Continue s \<Longrightarrow> stopReason s = stopReason st"
  by (auto simp: recordCandidate_def Let_def trackStall_def split: if_splits)

section \<open>The states at the head of the loop\<close>

text \<open>
  \<open>loopHead c e g stored a st\<close>: in the run of \<open>processGeneration\<close> on the row \<open>g\<close>, the loop
  test for attempt \<open>a\<close> is reached in state \<open>st\<close>.
\<close>

inductive loopHead ::
  "Collaborators \<Rightarrow> Env \<Rightarrow> SpriteGeneration \<Rightarrow> SpriteGeneration \<Rightarrow> int \<Rightarrow> LoopState \<Rightarrow> bool"
  for c e g stored
where
  start: "loopHead c e g stored 1 (initialState e g stored)"
| step: "loopHead c e g stored a st \<Longrightarrow> a \<le> maxAttempts st \<Longrightarrow>
         attemptBody c e g a st = Continue st' \<Longrightarrow> loopHead c e g stored (a + 1) st'"

lemma attemptBody_Continue_reached:
  assumes "attemptBody c e g a st = Continue st'"
  obtains raw ev s where "attemptReach c e g a st = Some (raw, ev, s)"
    and "recordCandidate c a raw ev s = Continue st'"
proof (cases "attemptReach c e g a st")
  case None
  from attemptBody_unreached [OF None] assms show ?thesis by auto
next
  case (Some t)
  obtain raw ev s where t: "t = (raw, ev, s)" by (cases t)
  with Some attemptBody_reached [of c e g a st raw ev s] assms that show ?thesis by simp
qed

lemma stalledAgainst_fields:
  "lastFailureSignature s = lastFailureSignature t \<Longrightarrow> lastFailureScore s = lastFailureScore t \<Longrightarrow>
     stalledAgainst a ev s = stalledAgainst a ev t"
  by (simp add: stalledAgainst_def)

lemma attemptBody_failureStallCount:
  assumes "attemptReach c e g a st = Some (raw, ev, s)"
  shows "failureStallCount (stepState (attemptBody c e g a st)) =
           (if stalledAgainst a ev st then failureStallCount st + 1 else 0)"
  using attemptBody_reached [OF assms] attemptReach_stall_fields [OF assms]
    recordCandidate_failureStallCount [of c a raw ev s]
    stalledAgainst_fields [of s st a ev]
  by simp

lemma attemptBody_Continue_stopReason:
  assumes "attemptBody c e g a st = Continue st'"
  shows "stopReason st' = stopReason st"
proof -
  from assms obtain raw ev s where r: "attemptReach c e g a st = Some (raw, ev, s)"
    and rc: "recordCandidate c a raw ev s = Continue st'"
    by (rule attemptBody_Continue_reached)
  from recordCandidate_Continue_stopReason [OF rc] attemptReach_stall_fields(4) [OF r]
  show ?thesis by simp
qed

lemma attemptBody_Continue_failure:
  assumes "attemptReach c e g a st = Some (raw, ev, s)"
    and "attemptBody c e g a st = Continue st'"
  shows "isFailure ev"
  using assms attemptBody_reached [OF assms(1)]
  by (auto simp: recordCandidate_def Let_def isFailure_def split: if_splits)

lemma loopHead_invariants:
  assumes "loopHead c e g stored a st"
  shows "1 \<le> a \<and> stopReason st = None \<and> 0 \<le> failureStallCount st \<and>
         (a = 1 \<longrightarrow> lastFailureSignature st = None \<and> backendCalls st = []) \<and>
         attemptsExecuted st = a - 1"
  using assms
proof (induction rule: loopHead.induct)
  case start
  show ?case by (simp add: initialState_def Let_def)
next
  case (step a st st')
  from step.hyps(3) obtain raw ev s where r: "attemptReach c e g a st = Some (raw, ev, s)"
    and rc: "recordCandidate c a raw ev s = Continue st'"
    by (rule attemptBody_Continue_reached)
  have cnt: "failureStallCount st' = (if stalledAgainst a ev st then failureStallCount st + 1 else 0)"
    using attemptBody_failureStallCount [OF r] step.hyps(3) by (simp add: stepState_def)
  have ex: "attemptsExecuted st' = a"
    using rc attemptReach_stall_fields(6) [OF r]
    by (auto simp: recordCandidate_def Let_def trackStall_def split: if_splits)
  from step.IH cnt ex attemptBody_Continue_stopReason [OF step.hyps(3)]
  show ?case by auto
qed

lemma stalledAgainst_after_failure:
  assumes r: "attemptReach c e g a st = Some (raw1, ev1, s1)"
    and cont: "attemptBody c e g a st = Continue st'"
    and a: "1 \<le> a"
  shows "stalledAgainst (a + 1) ev2 st' =
           (isFailure ev2 \<and>
            buildWarningSignature (attemptWarningsOf ev2) = buildWarningSignature (attemptWarningsOf ev1) \<and>
            diagnosticsScore (diagnostics (attemptQualityResult ev2)) \<le>
              diagnosticsScore (diagnostics (attemptQualityResult ev1)) + 3 / 4)"
proof -
  have f: "isFailure ev1" by (rule attemptBody_Continue_failure [OF r cont])
  have "recordCandidate c a raw1 ev1 s1 = Continue st'"
    using attemptBody_reached [OF r] cont by simp
  then have st': "st' = stepState (recordCandidate c a raw1 ev1 s1)"
    by (simp add: stepState_def)
  from f recordCandidate_lastFailure [of c a raw1 ev1 s1] st'
  have "lastFailureSignature st' = Some (buildWarningSignature (attemptWarningsOf ev1))"
    and "lastFailureScore st' = Some (diagnosticsScore (diagnostics (attemptQualityResult ev1)))"
    by simp_all
  with a show ?thesis by (auto simp: stalledAgainst_def)
qed

text \<open>
  C2. Take two consecutive attempts \<open>a\<close> and \<open>a + 1\<close> of a run that both reach their evaluation
  (\<open>ev1\<close>, then \<open>ev2\<close>), the loop going on after the first. An attempt is a failure iff its
  quality result is not ok or its settings verification did not pass. The second attempt is
  stalled iff it is a failure whose warning signature equals the first's (the prior failing
  attempt) and whose quality score is at most 0.75 above the first's. After each attempt the
  stall counter is one more than before when the attempt is stalled, and 0 otherwise (another
  failure, or a success). The loop stops at the second attempt with \<open>quality_stagnation\<close>
  exactly when both attempts were stalled failures. The first attempt of a run is never
  stalled.
\<close>

theorem stagnation_rule:
  assumes head: "loopHead c e g stored a st"
    and r1: "attemptReach c e g a st = Some (raw1, ev1, s1)"
    and cont: "attemptBody c e g a st = Continue st'"
    and r2: "attemptReach c e g (a + 1) st' = Some (raw2, ev2, s2)"
  shows "isFailure ev2 =
           (\<not> ok (attemptQualityResult ev2) \<or> \<not> passed (attemptSettingsVerification ev2))
       \<and> stalledAgainst (a + 1) ev2 st' =
           (isFailure ev2 \<and>
            buildWarningSignature (attemptWarningsOf ev2) = buildWarningSignature (attemptWarningsOf ev1) \<and>
            diagnosticsScore (diagnostics (attemptQualityResult ev2)) \<le>
              diagnosticsScore (diagnostics (attemptQualityResult ev1)) + 3 / 4)
       \<and> failureStallCount st' = (if stalledAgainst a ev1 st then failureStallCount st + 1 else 0)
       \<and> failureStallCount (stepState (attemptBody c e g (a + 1) st')) =
           (if stalledAgainst (a + 1) ev2 st' then failureStallCount st' + 1 else 0)
       \<and> (\<exists>s. attemptBody c e g (a + 1) st' = Break s \<and> stopReason s = Some quality_stagnation) =
           (stalledAgainst a ev1 st \<and> stalledAgainst (a + 1) ev2 st')
       \<and> (a = 1 \<longrightarrow> \<not> stalledAgainst a ev1 st)"
proof -
  from loopHead_invariants [OF head]
  have a1: "1 \<le> a" and sr: "stopReason st = None" and cnt0: "0 \<le> failureStallCount st" by simp_all
  have c1: "failureStallCount st' = (if stalledAgainst a ev1 st then failureStallCount st + 1 else 0)"
    using attemptBody_failureStallCount [OF r1] cont by (simp add: stepState_def)
  have c2: "failureStallCount (stepState (attemptBody c e g (a + 1) st')) =
              (if stalledAgainst (a + 1) ev2 st' then failureStallCount st' + 1 else 0)"
    by (rule attemptBody_failureStallCount [OF r2])
  have sr': "stopReason s2 = None"
    using attemptReach_stall_fields(4) [OF r2] attemptBody_Continue_stopReason [OF cont] sr by simp
  have same: "stalledAgainst (a + 1) ev2 s2 = stalledAgainst (a + 1) ev2 st'"
    using attemptReach_stall_fields(1,2) [OF r2] by (rule stalledAgainst_fields)
  have "(\<exists>s. attemptBody c e g (a + 1) st' = Break s \<and> stopReason s = Some quality_stagnation) =
          (stalledAgainst (a + 1) ev2 s2 \<and> failureStallCount s2 + 1 \<ge> 2)"
    using recordCandidate_stagnation [OF sr', of c "a + 1" raw2 ev2] attemptBody_reached [OF r2]
    by simp
  also have "\<dots> = (stalledAgainst a ev1 st \<and> stalledAgainst (a + 1) ev2 st')"
    using same attemptReach_stall_fields(3) [OF r2] c1 cnt0 by auto
  finally have stop:
    "(\<exists>s. attemptBody c e g (a + 1) st' = Break s \<and> stopReason s = Some quality_stagnation) =
       (stalledAgainst a ev1 st \<and> stalledAgainst (a + 1) ev2 st')" .
  have first: "a = 1 \<longrightarrow> \<not> stalledAgainst a ev1 st" by (simp add: stalledAgainst_def)
  show ?thesis
    using stalledAgainst_after_failure [OF r1 cont a1, of ev2] c1 c2 stop first
    by (simp add: isFailure_def)
qed

lemma stagnation_needs_evaluation:
  assumes "loopHead c e g stored a st"
    and "attemptBody c e g a st = Break s" and "stopReason s = Some quality_stagnation"
  shows "\<exists>raw ev s1. attemptReach c e g a st = Some (raw, ev, s1) \<and> stalledAgainst a ev st \<and> 1 < a"
proof (cases "attemptReach c e g a st")
  case None
  from attemptBody_unreached [OF None] assms loopHead_invariants [OF assms(1)]
  show ?thesis by auto
next
  case (Some t)
  obtain raw ev s1 where t: "t = (raw, ev, s1)" by (cases t)
  with Some have r: "attemptReach c e g a st = Some (raw, ev, s1)" by simp
  have sr: "stopReason s1 = None"
    using attemptReach_stall_fields(4) [OF r] loopHead_invariants [OF assms(1)] by simp
  from recordCandidate_stagnation [OF sr, of c a raw ev] attemptBody_reached [OF r] assms(2,3)
  have "stalledAgainst a ev s1" by auto
  with attemptReach_stall_fields(1,2) [OF r] stalledAgainst_fields [of s1 st a ev]
  have "stalledAgainst a ev st" by simp
  with r show ?thesis by (auto simp: stalledAgainst_def)
qed

section \<open>The budget gate\<close>



text \<open>The state in which the budget checks of attempt \<open>a\<close> are made.\<close>

definition atBudgetCheck :: "Collaborators \<Rightarrow> int \<Rightarrow> LoopState \<Rightarrow> LoopState" where
  "atBudgetCheck c attemptIndex st =
     st\<lparr>attemptsExecuted := attemptIndex,
        promptForAttempt := seedPrompt c attemptIndex (promptForAttempt st)\<rparr>"





section \<open>Bounded attempts\<close>
















section \<open>Failures of a run are recorded\<close>





section \<open>Quality score\<close>

text \<open>
  The scorer measures the decoded image and then judges the measurements. The measurements
  (the metrics, the reasons recorded by the checks, whether the dimensions mismatch and whether
  any transparent pixel was seen) are the input here; the thresholds, the penalties, the score
  and the verdict are computed as the code does. Counts are natural numbers, as the lengths and
  the set size they come from.
\<close>

record QualityThresholds =
  minScore :: real
  minTransparentRatio :: real
  maxTranslucentRatio :: real
  maxOuterEdgeOpaqueRatio :: real
  maxBoundaryBleedRatioAllowed :: real
  minFrameFillRatio :: real
  maxFrameFillRatio :: real
  maxAnchorDriftPxAllowed :: real
  maxHorizontalDriftPxAllowed :: real
  maxScaleVarianceRatio :: real
  minMeanConsecutiveDelta :: real
  minDistinctPairRatio :: real
  minQuantizedColorCount :: real
  maxQuantizedColorCount :: real

record QualityMetrics =
  analyzedFrameCount :: int
  expectedFrameCount :: int
  transparentPixelRatio :: real
  translucentPixelRatio :: real
  quantizedColorCount :: nat
  outerEdgeOpaqueRatio :: real
  maxBoundaryBleedRatio :: real
  emptyFrameCount :: nat
  overcrowdedFrameCount :: nat
  clippedFrameCount :: nat
  maxAnchorDriftPx :: real
  maxHorizontalDriftPx :: real
  maxVerticalDriftPx :: real
  scaleVarianceRatio :: real
  meanConsecutiveFrameDelta :: real
  minConsecutiveFrameDelta :: real
  maxConsecutiveFrameDelta :: real
  distinctPairRatio :: real

definition clamp :: "real \<Rightarrow> real \<Rightarrow> real \<Rightarrow> real" where
  "clamp v lo hi = min hi (max lo v)"

text \<open>\<open>round(value, 1)\<close>, that is \<open>Number(value.toFixed(1))\<close>, on a non-negative value.\<close>

definition roundTo1 :: "real \<Rightarrow> real" where
  "roundTo1 v = real_of_int (mathRound (v * 10)) / 10"

record MotionThresholds =
  motionMinMeanConsecutiveDelta :: real
  motionMinDistinctPairRatio :: real
  driftToleranceMultiplier :: real

definition motionThresholdForAnimation :: "string \<Rightarrow> MotionThresholds" where
  "motionThresholdForAnimation animation =
     (let normalized = toLowerCase (trim animation)
      in if includesStr normalized ''idle'' then
           \<lparr>motionMinMeanConsecutiveDelta = 3 / 1000, motionMinDistinctPairRatio = 2 / 10,
            driftToleranceMultiplier = 1\<rparr>
         else if includesStr normalized ''walk'' then
           \<lparr>motionMinMeanConsecutiveDelta = 1 / 100, motionMinDistinctPairRatio = 4 / 10,
            driftToleranceMultiplier = 14 / 10\<rparr>
         else if includesStr normalized ''run'' \<or> includesStr normalized ''attack'' \<or>
                 includesStr normalized ''jump'' \<or> includesStr normalized ''dash'' \<or>
                 includesStr normalized ''sprint'' then
           \<lparr>motionMinMeanConsecutiveDelta = 12 / 1000, motionMinDistinctPairRatio = 45 / 100,
            driftToleranceMultiplier = 15 / 10\<rparr>
         else
           \<lparr>motionMinMeanConsecutiveDelta = 8 / 1000, motionMinDistinctPairRatio = 35 / 100,
            driftToleranceMultiplier = 1\<rparr>)"

text \<open>The thresholds \<open>validateSpriteQuality\<close> derives for a call.\<close>

definition qualityThresholds ::
  "int \<Rightarrow> int \<Rightarrow> int \<Rightarrow> int \<Rightarrow> string \<Rightarrow> int \<Rightarrow> real \<Rightarrow> QualityThresholds"
where
  "qualityThresholds sz cols rws frames animation intensity lowest =
     (let totalSlots = cols * rws;
          analyzed = min totalSlots (max 1 frames);
          motionThresholds = motionThresholdForAnimation animation;
          baseAnchorDriftPx = max 3 (mathRound (real_of_int sz * (16 / 100)));
          baseHorizontalDriftPx = max 2 (mathRound (real_of_int sz * (16 / 100)));
          multiplier = driftToleranceMultiplier motionThresholds;
          perFrameColorBudget =
            clamp (real_of_int (mathRound (20 + real_of_int intensity * (2 / 10)))) 24 44;
          colorCeiling = clamp (real_of_int analyzed * perFrameColorBudget) 120 1600
      in \<lparr>minScore = lowest,
          minTransparentRatio = 15 / 100,
          maxTranslucentRatio = 3 / 100,
          maxOuterEdgeOpaqueRatio = 16 / 100,
          maxBoundaryBleedRatioAllowed = 82 / 100,
          minFrameFillRatio = 15 / 1000,
          maxFrameFillRatio = 72 / 100,
          maxAnchorDriftPxAllowed =
            real_of_int (max baseAnchorDriftPx (mathRound (real_of_int baseAnchorDriftPx * multiplier))),
          maxHorizontalDriftPxAllowed =
            real_of_int (max baseHorizontalDriftPx
                           (mathRound (real_of_int baseHorizontalDriftPx * multiplier))),
          maxScaleVarianceRatio = 45 / 100,
          minMeanConsecutiveDelta = motionMinMeanConsecutiveDelta motionThresholds,
          minDistinctPairRatio = motionMinDistinctPairRatio motionThresholds,
          minQuantizedColorCount = real_of_int (max 20 (mathRound (real_of_int analyzed * 3))),
          maxQuantizedColorCount = colorCeiling\<rparr>)"

text \<open>The deductions of \<open>scoreFromPenalties\<close>, in the order the code subtracts them.\<close>

definition penalties :: "QualityThresholds \<Rightarrow> QualityMetrics \<Rightarrow> bool \<Rightarrow> bool \<Rightarrow> real list" where
  "penalties t m hasDimensionMismatch hasTransparency =
     [if hasDimensionMismatch then 28 else 0,
      if \<not> hasTransparency then 24 else 0,
      if transparentPixelRatio m < minTransparentRatio t
      then clamp (((minTransparentRatio t - transparentPixelRatio m) / minTransparentRatio t) * 20) 0 20
      else 0,
      if translucentPixelRatio m > maxTranslucentRatio t
      then clamp (((translucentPixelRatio m - maxTranslucentRatio t) /
                   max (1 / 1000) (maxTranslucentRatio t)) * 18) 0 18
      else 0,
      clamp (outerEdgeOpaqueRatio m * 90) 0 18,
      if maxBoundaryBleedRatio m > maxBoundaryBleedRatioAllowed t
      then clamp (((maxBoundaryBleedRatio m - maxBoundaryBleedRatioAllowed t) /
                   max (1 / 100) (1 - maxBoundaryBleedRatioAllowed t)) * 14) 0 14
      else 0,
      min 30 (real (emptyFrameCount m) * 6),
      min 20 (real (overcrowdedFrameCount m) * 4),
      min 30 (real (clippedFrameCount m) * 5),
      if maxAnchorDriftPx m > maxAnchorDriftPxAllowed t
      then clamp (((maxAnchorDriftPx m - maxAnchorDriftPxAllowed t) /
                   max 1 (maxAnchorDriftPxAllowed t)) * 16) 0 16
      else 0,
      if maxHorizontalDriftPx m > maxHorizontalDriftPxAllowed t
      then clamp (((maxHorizontalDriftPx m - maxHorizontalDriftPxAllowed t) /
                   max 1 (maxHorizontalDriftPxAllowed t)) * 10) 0 10
      else 0,
      if scaleVarianceRatio m > maxScaleVarianceRatio t
      then clamp (((scaleVarianceRatio m - maxScaleVarianceRatio t) /
                   max (1 / 100) (maxScaleVarianceRatio t)) * 12) 0 12
      else 0,
      if meanConsecutiveFrameDelta m < minMeanConsecutiveDelta t
      then clamp (((minMeanConsecutiveDelta t - meanConsecutiveFrameDelta m) /
                   max (1 / 1000) (minMeanConsecutiveDelta t)) * 14) 0 14
      else 0,
      if distinctPairRatio m < minDistinctPairRatio t
      then clamp (((minDistinctPairRatio t - distinctPairRatio m) /
                   max (1 / 1000) (minDistinctPairRatio t)) * 12) 0 12
      else 0,
      if real (quantizedColorCount m) < minQuantizedColorCount t
      then clamp (((minQuantizedColorCount t - real (quantizedColorCount m)) /
                   max 1 (minQuantizedColorCount t)) * 8) 0 8
      else 0,
      if real (quantizedColorCount m) > maxQuantizedColorCount t
      then clamp (((real (quantizedColorCount m) - maxQuantizedColorCount t) /
                   max 1 (maxQuantizedColorCount t)) * 8) 0 8
      else 0]"

definition penaltyCaps :: "real list" where
  "penaltyCaps = [28, 24, 20, 18, 18, 14, 30, 20, 30, 16, 10, 12, 14, 12, 8, 8]"

definition scoreFromPenalties ::
  "string list \<Rightarrow> QualityThresholds \<Rightarrow> QualityMetrics \<Rightarrow> bool \<Rightarrow> bool \<Rightarrow> real"
where
  "scoreFromPenalties recorded t m hasDimensionMismatch hasTransparency =
     (let deducted = 100 - sum_list (penalties t m hasDimensionMismatch hasTransparency);
          floored = (if length recorded = 0 then max deducted (minScore t) else deducted)
      in roundTo1 (clamp floored 0 100))"

record SheetMeasurements =
  measuredReasons :: "string list"
  measuredMetrics :: QualityMetrics
  hasDimensionMismatch :: bool
  hasTransparency :: bool

record ScoredQuality =
  scoredOk :: bool
  scoredReasons :: "string list"
  scoredScore :: real
  scoredThresholds :: QualityThresholds

text \<open>
  \<open>validateSpriteQuality\<close> from the measurements on: the thresholds, the score, the reason
  added when the score is below the minimum, and the verdict.
\<close>

definition validateSpriteQuality ::
  "SheetMeasurements \<Rightarrow> int \<Rightarrow> int \<Rightarrow> int \<Rightarrow> int \<Rightarrow> string \<Rightarrow> int \<Rightarrow> real \<Rightarrow> ScoredQuality"
where
  "validateSpriteQuality measured sz cols rws frames animation intensity lowest =
     (let t = qualityThresholds sz cols rws frames animation intensity lowest;
          result = scoreFromPenalties (measuredReasons measured) t (measuredMetrics measured)
                     (hasDimensionMismatch measured) (hasTransparency measured);
          final =
            (if result < lowest
             then measuredReasons measured @
                    [''Quality score '' @ toFixed1 result @ '' is below minimum '' @ toFixed1 lowest]
             else measuredReasons measured)
      in \<lparr>scoredOk = (length final = 0 \<and> result \<ge> lowest), scoredReasons = final,
          scoredScore = result, scoredThresholds = t\<rparr>)"
lemma clamp_bounds: "lo \<le> hi \<Longrightarrow> lo \<le> clamp v lo hi \<and> clamp v lo hi \<le> hi"
  by (simp add: clamp_def)

lemma roundTo1_bounds:
  assumes "0 \<le> v" and "v \<le> 100"
  shows "0 \<le> roundTo1 v \<and> roundTo1 v \<le> 100"
proof -
  have "0 \<le> \<lfloor>v * 10 + 1 / 2\<rfloor>" using assms(1) by simp
  moreover have "\<lfloor>v * 10 + 1 / 2\<rfloor> \<le> 1000"
  proof -
    have "v * 10 + 1 / 2 < 1001" using assms(2) by simp
    then have "\<lfloor>v * 10 + 1 / 2\<rfloor> < 1001" by (simp add: floor_less_iff)
    then show ?thesis by simp
  qed
  ultimately show ?thesis by (simp add: roundTo1_def mathRound_def)
qed

lemma roundTo1_tenths: "roundTo1 (real_of_int k / 10) = real_of_int k / 10"
  by (simp add: roundTo1_def mathRound_def)

lemma roundTo1_mono: "v \<le> w \<Longrightarrow> roundTo1 v \<le> roundTo1 w"
  by (simp add: roundTo1_def mathRound_def floor_mono divide_right_mono)

lemma scoreFromPenalties_bounds:
  "0 \<le> scoreFromPenalties recorded t m d h \<and> scoreFromPenalties recorded t m d h \<le> 100"
  using roundTo1_bounds clamp_bounds [of 0 100]
  by (simp add: scoreFromPenalties_def Let_def)

lemma penalties_capped:
  "list_all2 (\<lambda>p cap. 0 \<le> p \<and> p \<le> cap) (penalties t m d h) penaltyCaps"
  by (simp add: penalties_def penaltyCaps_def clamp_def)

lemma qualityThresholds_minScore:
  "minScore (qualityThresholds sz cols rws frames animation intensity lowest) = lowest"
  by (simp add: qualityThresholds_def Let_def)

lemma scoreFromPenalties_floor:
  assumes "recorded = []" and "0 \<le> minScore t" and "minScore t \<le> 100"
    and "minScore t = real_of_int k / 10"
  shows "minScore t \<le> scoreFromPenalties recorded t m d h"
proof -
  let ?deducted = "100 - sum_list (penalties t m d h)"
  have "minScore t \<le> clamp (max ?deducted (minScore t)) 0 100"
    using assms(2,3) by (simp add: clamp_def)
  then have "roundTo1 (minScore t) \<le> roundTo1 (clamp (max ?deducted (minScore t)) 0 100)"
    by (rule roundTo1_mono)
  moreover have "roundTo1 (minScore t) = minScore t"
    unfolding assms(4) by (rule roundTo1_tenths)
  moreover have "scoreFromPenalties recorded t m d h =
                   roundTo1 (clamp (max ?deducted (minScore t)) 0 100)"
    using assms(1) by (simp add: scoreFromPenalties_def Let_def)
  ultimately show ?thesis by simp
qed

text \<open>
  C5. For every outcome of the measurements and every parameter, the score returned by
  \<open>validateSpriteQuality\<close> lies in [0, 100]; it is 100 minus the sum of the penalties, each
  penalty lying between 0 and its own cap, raised to the minimum score when no reason was
  recorded by the checks, clamped to [0, 100] and rounded to one decimal. When the returned
  list of reasons is empty the score is at least the minimum score, and \<open>ok\<close> holds iff the
  returned list of reasons is empty and the score is at least the minimum score. (When the
  checks recorded no reason and the minimum score is a multiple of 0.1 within [0, 100], the
  score is at least the minimum score, so that no reason is added.)
\<close>

theorem quality_score_bounds:
  "0 \<le> scoredScore (validateSpriteQuality measured sz cols rws frames animation intensity lowest)
   \<and> scoredScore (validateSpriteQuality measured sz cols rws frames animation intensity lowest) \<le> 100
   \<and> scoredScore (validateSpriteQuality measured sz cols rws frames animation intensity lowest) =
       roundTo1 (clamp
         (if measuredReasons measured = []
          then max (100 - sum_list (penalties (qualityThresholds sz cols rws frames animation intensity lowest)
                      (measuredMetrics measured) (hasDimensionMismatch measured) (hasTransparency measured)))
                   lowest
          else 100 - sum_list (penalties (qualityThresholds sz cols rws frames animation intensity lowest)
                      (measuredMetrics measured) (hasDimensionMismatch measured) (hasTransparency measured)))
         0 100)
   \<and> list_all2 (\<lambda>p cap. 0 \<le> p \<and> p \<le> cap)
        (penalties (qualityThresholds sz cols rws frames animation intensity lowest)
           (measuredMetrics measured) (hasDimensionMismatch measured) (hasTransparency measured))
        penaltyCaps
   \<and> (scoredReasons (validateSpriteQuality measured sz cols rws frames animation intensity lowest) = [] \<longrightarrow>
        lowest \<le> scoredScore (validateSpriteQuality measured sz cols rws frames animation intensity lowest))
   \<and> scoredOk (validateSpriteQuality measured sz cols rws frames animation intensity lowest) =
       (scoredReasons (validateSpriteQuality measured sz cols rws frames animation intensity lowest) = [] \<and>
        lowest \<le> scoredScore (validateSpriteQuality measured sz cols rws frames animation intensity lowest))
   \<and> (measuredReasons measured = [] \<and> 0 \<le> lowest \<and> lowest \<le> 100 \<and> lowest = real_of_int k / 10 \<longrightarrow>
        lowest \<le> scoredScore (validateSpriteQuality measured sz cols rws frames animation intensity lowest) \<and>
        scoredOk (validateSpriteQuality measured sz cols rws frames animation intensity lowest))"
proof -
  let ?t = "qualityThresholds sz cols rws frames animation intensity lowest"
  let ?s = "scoreFromPenalties (measuredReasons measured) ?t (measuredMetrics measured)
              (hasDimensionMismatch measured) (hasTransparency measured)"
  have sc: "scoredScore (validateSpriteQuality measured sz cols rws frames animation intensity lowest) = ?s"
    by (simp add: validateSpriteQuality_def Let_def)
  have rs: "(scoredReasons (validateSpriteQuality measured sz cols rws frames animation intensity lowest) = []) =
              (measuredReasons measured = [] \<and> \<not> ?s < lowest)"
    by (simp add: validateSpriteQuality_def Let_def)
  have ok: "scoredOk (validateSpriteQuality measured sz cols rws frames animation intensity lowest) =
              (measuredReasons measured = [] \<and> \<not> ?s < lowest \<and> lowest \<le> ?s)"
    by (auto simp: validateSpriteQuality_def Let_def)
  have form: "?s = roundTo1 (clamp
         (if measuredReasons measured = []
          then max (100 - sum_list (penalties ?t (measuredMetrics measured)
                      (hasDimensionMismatch measured) (hasTransparency measured))) lowest
          else 100 - sum_list (penalties ?t (measuredMetrics measured)
                      (hasDimensionMismatch measured) (hasTransparency measured)))
         0 100)"
    by (simp add: scoreFromPenalties_def Let_def qualityThresholds_minScore)
  have fl: "measuredReasons measured = [] \<and> 0 \<le> lowest \<and> lowest \<le> 100 \<and> lowest = real_of_int k / 10 \<longrightarrow>
        lowest \<le> ?s"
    using scoreFromPenalties_floor [of "measuredReasons measured" ?t k]
    by (simp add: qualityThresholds_minScore)
  have c1: "0 \<le> ?s \<and> ?s \<le> 100"
    by (rule scoreFromPenalties_bounds)
  have c4: "measuredReasons measured = [] \<and> \<not> ?s < lowest \<longrightarrow> lowest \<le> ?s"
    using not_less by blast
  have c5: "(measuredReasons measured = [] \<and> \<not> ?s < lowest \<and> lowest \<le> ?s) =
              ((measuredReasons measured = [] \<and> \<not> ?s < lowest) \<and> lowest \<le> ?s)" by blast
  have c6: "measuredReasons measured = [] \<and> 0 \<le> lowest \<and> lowest \<le> 100 \<and> lowest = real_of_int k / 10 \<longrightarrow>
        lowest \<le> ?s \<and> (measuredReasons measured = [] \<and> \<not> ?s < lowest \<and> lowest \<le> ?s)"
    using fl by auto
  show ?thesis
    unfolding sc rs ok
    using c1 form [symmetric] penalties_capped [of ?t] c4 c5 c6
    by (intro conjI) (simp_all only:)
qed

section \<open>Concrete runs\<close>

subsection \<open>Steady collaborators\<close>

lemma steady_generate:
  "generateRawImage (requestImage (steadyCollaborators ev) a) text model =
     ([model], Inr \<lparr>rawBuffer = [0], modelUsed = model,
        tokenUsage = \<lparr>inputTokens = estimateTokens text, outputTokens = 0,
                       totalTokens = estimateTokens text\<rparr>\<rparr>)"
  by (simp add: generateRawImage_def steadyCollaborators_def readResponse_def Let_def)

lemma steady_evaluate:
  "frameRepairSlots ev = 0 \<Longrightarrow> evaluateAttempt (steadyCollaborators ev) bytes = Inr ev"
  by (simp add: evaluateAttempt_def bindE_def steadyCollaborators_def Let_def)

lemma steady_reach:
  assumes "frameRepairSlots ev = 0"
    and "\<not> budgetBlocked g (atBudgetCheck (steadyCollaborators ev) a st)"
  shows "\<exists>raw s. attemptReach (steadyCollaborators ev) e g a st = Some (raw, ev, s) \<and>
           stopReason s = stopReason st \<and> maxAttempts s = maxAttempts st \<and>
           activeModel s = activeModel st \<and>
           promptForAttempt s = promptForAttempt st \<and>
           remainingBudgetUsd s =
             max 0 (remainingBudgetUsd st -
                    estimateCostUsd (activeModel st) (estimateTokens (promptForAttempt st)) 0)"
  using assms
  by (simp add: attemptReach_def atBudgetCheck_def Let_def steady_generate steady_evaluate
      applyBackendResult_def)
     (simp add: steadyCollaborators_def)

lemma recordCandidate_continues:
  assumes "isFailure ev" and "\<not> (stalledAgainst a ev st \<and> failureStallCount st + 1 \<ge> 2)"
  shows "\<exists>st'. recordCandidate c a raw ev st = Continue st' \<and>
           activeModel st' = activeModel st \<and> maxAttempts st' = maxAttempts st \<and>
           remainingBudgetUsd st' = remainingBudgetUsd st \<and>
           promptForAttempt st' =
             (if a < maxAttempts st
              then correctionPrompt c (a + 1) (maxAttempts st) (attemptWarningsOf ev)
                     (isCorrectionCompact st) (correctionIssueLimit st)
              else promptForAttempt st)"
  using assms
  by (auto simp: recordCandidate_def Let_def trackStall_def isFailure_def
      isStalled_bestCandidate_update isStalled_stalledAgainst)

text \<open>One failing attempt of steady collaborators that does not end the loop.\<close>

lemma steady_failing_step:
  assumes slots: "frameRepairSlots ev = 0" and fail: "isFailure ev"
    and nb: "\<not> budgetBlocked g (atBudgetCheck (steadyCollaborators ev) a st)"
    and ns: "\<not> (stalledAgainst a ev st \<and> failureStallCount st + 1 \<ge> 2)"
  shows "\<exists>st'. attemptBody (steadyCollaborators ev) e g a st = Continue st' \<and>
           (\<exists>raw s. attemptReach (steadyCollaborators ev) e g a st = Some (raw, ev, s)) \<and>
           activeModel st' = activeModel st \<and> maxAttempts st' = maxAttempts st \<and>
           remainingBudgetUsd st' =
             max 0 (remainingBudgetUsd st -
                    estimateCostUsd (activeModel st) (estimateTokens (promptForAttempt st)) 0) \<and>
           promptForAttempt st' =
             (if a < maxAttempts st then ''fix the issues'' else promptForAttempt st)"
proof -
  from steady_reach [OF slots nb, of e] obtain raw s where
    r: "attemptReach (steadyCollaborators ev) e g a st = Some (raw, ev, s)"
    and s: "stopReason s = stopReason st" "maxAttempts s = maxAttempts st"
      "activeModel s = activeModel st" "promptForAttempt s = promptForAttempt st"
      "remainingBudgetUsd s =
         max 0 (remainingBudgetUsd st -
                estimateCostUsd (activeModel st) (estimateTokens (promptForAttempt st)) 0)"
    by blast
  have ns': "\<not> (stalledAgainst a ev s \<and> failureStallCount s + 1 \<ge> 2)"
    using ns attemptReach_stall_fields(1,2,3) [OF r] stalledAgainst_fields [of s st a ev] by simp
  from recordCandidate_continues [OF fail ns', of "steadyCollaborators ev" raw]
  obtain st' where c: "recordCandidate (steadyCollaborators ev) a raw ev s = Continue st'"
    and f: "activeModel st' = activeModel s" "maxAttempts st' = maxAttempts s"
      "remainingBudgetUsd st' = remainingBudgetUsd s"
      "promptForAttempt st' =
         (if a < maxAttempts s
          then correctionPrompt (steadyCollaborators ev) (a + 1) (maxAttempts s) (attemptWarningsOf ev)
                 (isCorrectionCompact s) (correctionIssueLimit s)
          else promptForAttempt s)"
    by blast
  have cp: "\<And>n m w k l. correctionPrompt (steadyCollaborators ev) n m w k l = ''fix the issues''"
    by (simp add: steadyCollaborators_def)
  from attemptBody_reached [OF r] c r f s cp show ?thesis by auto
qed

lemma estimateTokens_sample: "estimateTokens ''sprite sheet of a knight'' = 6"
  by (simp add: estimateTokens_def trim_def isSpace_def collapseSpaces_def Let_def)

lemma estimateTokens_fix: "estimateTokens ''fix the issues'' = 4"
  by (simp add: estimateTokens_def trim_def isSpace_def collapseSpaces_def Let_def)

lemma estimateCostUsd_fallback:
  "estimateCostUsd ''gpt-image-1'' n m = real_of_int n * (4 / 10000000)"
  by (simp add: estimateCostUsd_def getModelProfile_def modelRates_def Let_def)

lemma budgetBlocked_fallback:
  "activeModel st = ''gpt-image-1'' \<Longrightarrow>
     budgetBlocked g (atBudgetCheck (steadyCollaborators ev) a st) =
       (remainingBudgetUsd st \<le> 0 \<or>
        real_of_int (estimateTokens (promptForAttempt st)) * (4 / 10000000) > remainingBudgetUsd st)"
  by (simp add: budgetBlocked_def atBudgetCheck_def buildAttemptCostEstimate_def
      estimateCostUsd_fallback steadyCollaborators_def Let_def)

subsection \<open>A run that stagnates\<close>

text \<open>
  Every attempt yields the failing evaluation above: attempt 1 fails, attempts 2 and 3 are
  stalled, and the loop stops at attempt 3.
\<close>

definition stallCollaborators :: Collaborators where
  "stallCollaborators = steadyCollaborators failingEvaluation"

definition stallRun0 :: LoopState where
  "stallRun0 = initialState sampleEnv sampleGeneration sampleGeneration"

definition stallRun1 :: LoopState where
  "stallRun1 = stepState (attemptBody stallCollaborators sampleEnv sampleGeneration 1 stallRun0)"

definition stallRun2 :: LoopState where
  "stallRun2 = stepState (attemptBody stallCollaborators sampleEnv sampleGeneration 2 stallRun1)"

lemma isFailure_failingEvaluation: "isFailure failingEvaluation"
  by (simp add: isFailure_def failingEvaluation_def)

lemma slots_failingEvaluation: "frameRepairSlots failingEvaluation = 0"
  by (simp add: failingEvaluation_def)

lemma stallRun0_fields:
  "activeModel stallRun0 = ''gpt-image-1''" "maxAttempts stallRun0 = 4"
  "promptForAttempt stallRun0 = ''sprite sheet of a knight''"
  "remainingBudgetUsd stallRun0 = 100" "failureStallCount stallRun0 = 0"
  by (simp_all add: stallRun0_def initialState_def sampleEnv_def sampleGeneration_def Let_def
      getModelProfile_def modelRates_def configuredMaxAttempts_def)

theorem stagnation_rule_witness:
  "(\<exists>s. attemptBody stallCollaborators sampleEnv sampleGeneration 3 stallRun2 = Break s \<and>
        stopReason s = Some quality_stagnation)
   \<and> failureStallCount stallRun1 = 0
   \<and> failureStallCount stallRun2 = 1
   \<and> stalledAgainst 2 failingEvaluation stallRun1
   \<and> stalledAgainst 3 failingEvaluation stallRun2"
proof -
  note fe = slots_failingEvaluation isFailure_failingEvaluation
  have nb0: "\<not> budgetBlocked sampleGeneration (atBudgetCheck (steadyCollaborators failingEvaluation) 1 stallRun0)"
    by (simp add: budgetBlocked_fallback stallRun0_fields estimateTokens_sample)
  have ns0: "\<not> (stalledAgainst 1 failingEvaluation stallRun0 \<and> failureStallCount stallRun0 + 1 \<ge> 2)"
    by (simp add: stalledAgainst_def)
  from steady_failing_step [OF fe nb0 ns0, of sampleEnv]
  obtain raw0 s0 where b1: "attemptBody stallCollaborators sampleEnv sampleGeneration 1 stallRun0 = Continue stallRun1"
    and r0: "attemptReach stallCollaborators sampleEnv sampleGeneration 1 stallRun0 =
               Some (raw0, failingEvaluation, s0)"
    and f1: "activeModel stallRun1 = ''gpt-image-1''" "maxAttempts stallRun1 = 4"
      "remainingBudgetUsd stallRun1 = 100 - 6 * (4 / 10000000)"
      "promptForAttempt stallRun1 = ''fix the issues''"
    unfolding stallRun1_def stallCollaborators_def
    by (auto simp: stepState_def stallRun0_fields estimateCostUsd_fallback estimateTokens_sample)
  have c1: "failureStallCount stallRun1 = 0"
    using attemptBody_failureStallCount [OF r0] b1
    by (simp add: stepState_def stalledAgainst_def)
  have head: "loopHead stallCollaborators sampleEnv sampleGeneration sampleGeneration 2 stallRun1"
  proof -
    have "loopHead stallCollaborators sampleEnv sampleGeneration sampleGeneration 1 stallRun0"
      unfolding stallRun0_def by (rule loopHead.start)
    moreover have "1 \<le> maxAttempts stallRun0" by (simp add: stallRun0_fields)
    ultimately have "loopHead stallCollaborators sampleEnv sampleGeneration sampleGeneration (1 + 1) stallRun1"
      using b1 by (rule loopHead.step)
    then show ?thesis by simp
  qed
  have nb1: "\<not> budgetBlocked sampleGeneration (atBudgetCheck (steadyCollaborators failingEvaluation) 2 stallRun1)"
    by (simp add: budgetBlocked_fallback f1 estimateTokens_fix)
  have ns1: "\<not> (stalledAgainst 2 failingEvaluation stallRun1 \<and> failureStallCount stallRun1 + 1 \<ge> 2)"
    by (simp add: c1)
  from steady_failing_step [OF fe nb1 ns1, of sampleEnv]
  obtain raw1 s1 where b2: "attemptBody stallCollaborators sampleEnv sampleGeneration 2 stallRun1 = Continue stallRun2"
    and r1: "attemptReach stallCollaborators sampleEnv sampleGeneration 2 stallRun1 =
               Some (raw1, failingEvaluation, s1)"
    and f2: "activeModel stallRun2 = ''gpt-image-1''"
      "remainingBudgetUsd stallRun2 = 100 - 6 * (4 / 10000000) - 4 * (4 / 10000000)"
      "promptForAttempt stallRun2 = ''fix the issues''"
    unfolding stallRun2_def stallCollaborators_def
    by (auto simp: stepState_def f1 estimateCostUsd_fallback estimateTokens_fix)
  have nb2: "\<not> budgetBlocked sampleGeneration (atBudgetCheck (steadyCollaborators failingEvaluation) 3 stallRun2)"
    by (simp add: budgetBlocked_fallback f2 estimateTokens_fix)
  from steady_reach [OF slots_failingEvaluation nb2, of sampleEnv]
  obtain raw2 s2 where r2:
    "attemptReach stallCollaborators sampleEnv sampleGeneration (2 + 1) stallRun2 =
       Some (raw2, failingEvaluation, s2)"
    unfolding stallCollaborators_def by auto
  have prev: "stalledAgainst 2 failingEvaluation stallRun1"
    using stalledAgainst_after_failure [OF r0 b1, of failingEvaluation] isFailure_failingEvaluation
    by simp
  from stagnation_rule [OF head r1 b2 r2] prev c1 isFailure_failingEvaluation
  show ?thesis by simp
qed

subsection \<open>A run blocked on its first attempt\<close>





subsection \<open>A switch to the fallback model\<close>


subsection \<open>Runs that end by a throw\<close>






subsection \<open>A scored sheet\<close>

definition cleanMetrics :: QualityMetrics where
  "cleanMetrics =
     \<lparr>analyzedFrameCount = 4, expectedFrameCount = 4, transparentPixelRatio = 7 / 10,
      translucentPixelRatio = 0, quantizedColorCount = 50, outerEdgeOpaqueRatio = 1 / 10,
      maxBoundaryBleedRatio = 0, emptyFrameCount = 0, overcrowdedFrameCount = 0,
      clippedFrameCount = 0, maxAnchorDriftPx = 2, maxHorizontalDriftPx = 1,
      maxVerticalDriftPx = 1, scaleVarianceRatio = 1 / 10, meanConsecutiveFrameDelta = 5 / 100,
      minConsecutiveFrameDelta = 3 / 100, maxConsecutiveFrameDelta = 8 / 100,
      distinctPairRatio = 1\<rparr>"

definition cleanMeasurements :: SheetMeasurements where
  "cleanMeasurements =
     \<lparr>measuredReasons = [], measuredMetrics = cleanMetrics, hasDimensionMismatch = False,
      hasTransparency = True\<rparr>"

lemma motion_walk:
  "motionThresholdForAnimation ''walk'' =
     \<lparr>motionMinMeanConsecutiveDelta = 1 / 100, motionMinDistinctPairRatio = 4 / 10,
      driftToleranceMultiplier = 14 / 10\<rparr>"
  by (simp add: motionThresholdForAnimation_def toLowerCase_def lowerChar_def trim_def isSpace_def
      Let_def)

lemma clean_thresholds:
  "qualityThresholds 64 4 1 4 ''walk'' 70 lowest =
     \<lparr>minScore = lowest, minTransparentRatio = 15 / 100, maxTranslucentRatio = 3 / 100,
      maxOuterEdgeOpaqueRatio = 16 / 100, maxBoundaryBleedRatioAllowed = 82 / 100,
      minFrameFillRatio = 15 / 1000, maxFrameFillRatio = 72 / 100,
      maxAnchorDriftPxAllowed = 14, maxHorizontalDriftPxAllowed = 14,
      maxScaleVarianceRatio = 45 / 100, minMeanConsecutiveDelta = 1 / 100,
      minDistinctPairRatio = 4 / 10, minQuantizedColorCount = 20, maxQuantizedColorCount = 136\<rparr>"
  by (simp add: qualityThresholds_def motion_walk Let_def mathRound_def clamp_def)

lemma clean_penalties:
  "sum_list (penalties (qualityThresholds 64 4 1 4 ''walk'' 70 lowest) cleanMetrics False True) = 9"
  by (simp add: clean_thresholds penalties_def cleanMetrics_def clamp_def)

theorem quality_score_bounds_witness:
  "scoredScore (validateSpriteQuality cleanMeasurements 64 4 1 4 ''walk'' 70 85) = 91
   \<and> scoredOk (validateSpriteQuality cleanMeasurements 64 4 1 4 ''walk'' 70 85)
   \<and> scoredReasons (validateSpriteQuality cleanMeasurements 64 4 1 4 ''walk'' 70 85) = []"
proof -
  have m: "measuredReasons cleanMeasurements = []" "measuredMetrics cleanMeasurements = cleanMetrics"
    "hasDimensionMismatch cleanMeasurements = False" "hasTransparency cleanMeasurements = True"
    by (simp_all add: cleanMeasurements_def)
  have r: "roundTo1 91 = 91" by (simp add: roundTo1_def mathRound_def)
  from quality_score_bounds [of cleanMeasurements 64 4 1 4 "''walk''" 70 85 850]
  show ?thesis by (auto simp: m clean_penalties clamp_def r)
qed

text \<open>
  With a minimum score that is not a multiple of 0.1 the rounding can undo the floor: no check
  records a reason, the deductions leave 85.204, the floor raises it to 85.24, the rounding
  gives 85.2, and the sheet is rejected.
\<close>

definition edgyMetrics :: QualityMetrics where
  "edgyMetrics = cleanMetrics\<lparr>outerEdgeOpaqueRatio := 1644 / 10000\<rparr>"

definition edgyMeasurements :: SheetMeasurements where
  "edgyMeasurements = cleanMeasurements\<lparr>measuredMetrics := edgyMetrics\<rparr>"

lemma rounding_below_minimum:
  "scoredScore (validateSpriteQuality edgyMeasurements 64 4 1 4 ''walk'' 70 (8524 / 100)) = 852 / 10
   \<and> \<not> scoredOk (validateSpriteQuality edgyMeasurements 64 4 1 4 ''walk'' 70 (8524 / 100))"
proof -
  have p: "\<And>lowest. sum_list (penalties (qualityThresholds 64 4 1 4 ''walk'' 70 lowest)
             edgyMetrics False True) = 14796 / 1000"
    by (simp add: clean_thresholds penalties_def edgyMetrics_def cleanMetrics_def clamp_def)
  have s: "scoreFromPenalties [] (qualityThresholds 64 4 1 4 ''walk'' 70 (8524 / 100))
             edgyMetrics False True = 852 / 10"
    by (simp add: scoreFromPenalties_def Let_def p clamp_def roundTo1_def mathRound_def
        qualityThresholds_minScore)
  show ?thesis
    using s
    by (simp add: validateSpriteQuality_def Let_def edgyMeasurements_def cleanMeasurements_def)
qed

end
